theory Spec2Isabelle
  imports Main "HOL-Library.Word" "HOL-Library.Signed_Division" "HOL-Library.AList"
begin

section \<open>Decimal rendering of integers\<close>

text \<open>
  \<^verbatim>\<open>strconv.Itoa\<close> and the \<^verbatim>\<open>%d\<close> verb of \<^verbatim>\<open>fmt\<close> print an integer in base 10,
  with a leading minus sign for a negative one.
\<close>

definition digit_char :: "int \<Rightarrow> char" where
  "digit_char d = char_of (48 + d)"

function digits10 :: "int \<Rightarrow> string" where
  "digits10 n = (if n < 10 then [digit_char n] else digits10 (n div 10) @ [digit_char (n mod 10)])"
  by pat_completeness auto
termination
  by (relation "measure nat") auto

declare digits10.simps [simp del]

definition Itoa :: "int \<Rightarrow> string" where
  "Itoa i = (if i < 0 then CHR ''-'' # digits10 (- i) else digits10 i)"

section \<open>protocol/grpc: expected status code\<close>

text \<open>
  \<^verbatim>\<open>Expect\<close> and \<^verbatim>\<open>ExpectStatus\<close> of \<^verbatim>\<open>protocol/grpc/expect.go\<close>, with the fields
  that \<^verbatim>\<open>assertStatusCode\<close> reads. A \<^verbatim>\<open>*status.Status\<close> may be nil (\<^verbatim>\<open>extract\<close>
  returns nil when the call returned no error); \<^verbatim>\<open>Code()\<close> of nil is \<^verbatim>\<open>codes.OK\<close>, which is 0,
  and \<^verbatim>\<open>Message()\<close> of nil is empty. \<^verbatim>\<open>codes.Code\<close> is a \<^verbatim>\<open>uint32\<close>.
\<close>

record ExpectStatus =
  Code :: string
  Message :: string

record Expect =
  Code :: string
  Status :: ExpectStatus

record Status =
  code :: "32 word"
  message :: string

definition Status_Code :: "Status option \<Rightarrow> 32 word" where
  "Status_Code sts = (case sts of None \<Rightarrow> 0 | Some s \<Rightarrow> code s)"

definition Status_Message :: "Status option \<Rightarrow> string" where
  "Status_Message sts = (case sts of None \<Rightarrow> [] | Some s \<Rightarrow> message s)"

text \<open>
  \<^verbatim>\<open>assertStatusCode\<close>. The name of a code (\<^verbatim>\<open>codes.Code.String\<close>, of the gRPC library) and
  the rendering of the status details (\<^verbatim>\<open>detailsString\<close>, over protobuf messages) are
  parameters. The result is the returned error's message, \<open>None\<close> for nil.
  \<^verbatim>\<open>int(int32(c))\<close> reads the 32 bits of the code as a signed number.
\<close>

definition assertStatusCode ::
  "(32 word \<Rightarrow> string) \<Rightarrow> (Status option \<Rightarrow> string) \<Rightarrow> Expect \<Rightarrow> Status option \<Rightarrow> string option" where
  "assertStatusCode codeString detailsString e sts =
    (let expectedCode = ''OK'';
         expectedCode = (if Expect.Code e \<noteq> [] then Expect.Code e else expectedCode);
         expectedCode = (if ExpectStatus.Code (Status e) \<noteq> [] then ExpectStatus.Code (Status e) else expectedCode)
     in if codeString (Status_Code sts) = expectedCode then None
        else if Itoa (sint (Status_Code sts)) = expectedCode then None
        else Some (''expected code is \"'' @ expectedCode @ ''\" but got \"'' @ codeString (Status_Code sts)
                   @ ''\": message=\"'' @ Status_Message sts @ ''\": details=[ '' @ detailsString sts @ '' ]''))"

section \<open>reporter: test summary\<close>

text \<open>
  \<^verbatim>\<open>testSummary\<close> of \<^verbatim>\<open>reporter/test_summary.go\<close>. The mutex only serialises the
  calls; the model is the sequential behaviour. The three result strings
  (\<^verbatim>\<open>TestResultPassed.String()\<close> and its siblings, declared elsewhere in the package) are
  parameters; the \<^verbatim>\<open>switch\<close> takes the first case that matches.
\<close>

record testSummary =
  passed :: "string list"
  failed :: "string list"
  skipped :: "string list"

definition newTestSummary :: testSummary where
  "newTestSummary = \<lparr>passed = [], failed = [], skipped = []\<rparr>"

record resultStrings =
  passedString :: string
  failedString :: string
  skippedString :: string

definition testSummary_append :: "resultStrings \<Rightarrow> testSummary \<Rightarrow> string \<Rightarrow> string \<Rightarrow> testSummary" where
  "testSummary_append rs s testFileRelPath testResultString =
    (if testResultString = passedString rs then s\<lparr>passed := passed s @ [testFileRelPath]\<rparr>
     else if testResultString = failedString rs then s\<lparr>failed := failed s @ [testFileRelPath]\<rparr>
     else if testResultString = skippedString rs then s\<lparr>skipped := skipped s @ [testFileRelPath]\<rparr>
     else s)"

text \<open>The loop of \<^verbatim>\<open>failedFiles\<close>, with \<^verbatim>\<open>result\<close> as the accumulator.\<close>

fun failedFiles_loop :: "string \<Rightarrow> string list \<Rightarrow> string" where
  "failedFiles_loop result [] = result"
| "failedFiles_loop result (f # fs) =
    (let result = (if result = [] then ''Failed tests:'' @ [CHR 0x0A] else result)
     in failedFiles_loop (result @ [CHR 0x09] @ ''- '' @ f @ [CHR 0x0A]) fs)"

definition failedFiles :: "testSummary \<Rightarrow> string" where
  "failedFiles s =
    (if length (failed s) = 0 then []
     else failedFiles_loop [] (failed s) @ [CHR 0x0A])"

text \<open>
  The colours come from the library \<^verbatim>\<open>fatih/color\<close>: \<^verbatim>\<open>(*Color).Sprintf\<close> formats its
  arguments with \<^verbatim>\<open>fmt.Sprintf\<close> and wraps the text according to the colour's attributes and
  the terminal; the wrapping is the parameter \<open>wrap\<close>. \<^verbatim>\<open>String\<close> passes the text of
  \<^verbatim>\<open>failedFiles\<close> as the format itself, with no operands: \<^verbatim>\<open>fmt\<close> copies a format up to its
  first \<^verbatim>\<open>%\<close> and then interprets the verbs, which is the parameter \<open>verbs\<close>.
\<close>

datatype attribute = FgGreen | FgHiRed | FgYellow

definition passColor :: "bool \<Rightarrow> attribute list" where
  "passColor noColor = (if noColor then [] else [FgGreen])"

definition failColor :: "bool \<Rightarrow> attribute list" where
  "failColor noColor = (if noColor then [] else [FgHiRed])"

definition skipColor :: "bool \<Rightarrow> attribute list" where
  "skipColor noColor = (if noColor then [] else [FgYellow])"

definition Sprintf_format_only :: "(string \<Rightarrow> string) \<Rightarrow> string \<Rightarrow> string" where
  "Sprintf_format_only verbs format =
    (let lit = takeWhile (\<lambda>c. c \<noteq> CHR ''%'') format;
         rest = dropWhile (\<lambda>c. c \<noteq> CHR ''%'') format
     in lit @ (if rest = [] then [] else verbs rest))"

definition testSummary_String ::
  "(attribute list \<Rightarrow> string \<Rightarrow> string) \<Rightarrow> (string \<Rightarrow> string) \<Rightarrow> testSummary \<Rightarrow> bool \<Rightarrow> string" where
  "testSummary_String wrap verbs s noColor =
    (let totalText = Itoa (int (length (passed s) + length (failed s) + length (skipped s))) @ '' tests run'';
         passedText = wrap (passColor noColor) (Itoa (int (length (passed s))) @ '' passed'');
         failedText = wrap (failColor noColor) (Itoa (int (length (failed s))) @ '' failed'');
         skippedText = wrap (skipColor noColor) (Itoa (int (length (skipped s))) @ '' skipped'');
         failedFilesText = wrap (failColor noColor) (Sprintf_format_only verbs (failedFiles s))
     in [CHR 0x0A] @ totalText @ '': '' @ passedText @ '', '' @ failedText @ '', '' @ skippedText
        @ [CHR 0x0A, CHR 0x0A] @ failedFilesText)"

section \<open>template: syntax trees, values and errors\<close>

text \<open>
  The second file of the sources is the evaluator of package \<^verbatim>\<open>template\<close>. Its syntax
  trees (\<^verbatim>\<open>template/ast\<close>) and tokens (\<^verbatim>\<open>template/token\<close>) are declared outside the
  sources at hand; the constructors below are the node types and fields that
  \<^verbatim>\<open>executeExpr\<close> dispatches on (\<open>INT_t\<close> is \<^verbatim>\<open>token.INT\<close>). A nil \<^verbatim>\<open>X\<close> of a \<^verbatim>\<open>ParameterExpr\<close> and a nil
  \<^verbatim>\<open>Arg\<close> of a \<^verbatim>\<open>LeftArrowExpr\<close> are \<open>None\<close>.
\<close>

datatype token =
  ADD | SUB | MUL | QUO | REM | LAND | LOR | EQL | NEQ | LSS | LEQ | GTR | GEQ | NOT
  | INT_t | FLOAT | STRING | BOOL | ILLEGAL

datatype expr =
    BasicLit token string
  | ParameterExpr "expr option" bool
  | ParenExpr expr
  | UnaryExpr token expr
  | BinaryExpr expr token expr
  | ConditionalExpr expr expr expr
  | Ident string
  | SelectorExpr expr string
  | IndexExpr expr expr
  | CallExpr expr "expr list"
  | LeftArrowExpr expr "expr option"
  | DefinedExpr expr

text \<open>
  Go values as the evaluator sees them through \<^verbatim>\<open>reflect\<close>. An integer is stored as
  the 64 bits that \<^verbatim>\<open>Convert(typeInt64)\<close> or \<^verbatim>\<open>Convert(typeUint64)\<close> yields (sign-extended
  or zero-extended), a float as the bits of its \<^verbatim>\<open>float64\<close> value, a byte slice as a
  slice header into the heap. \<open>Defined n v\<close> is a value of a defined type named \<open>n\<close>
  whose underlying predeclared value is \<open>v\<close>: it has the kind of \<open>v\<close> and converts
  like \<open>v\<close>, but does not match a type assertion or a type switch on \<open>v\<close>'s type.
  \<open>Other k i\<close> is any other value (map, struct, pointer, \<dots>) of kind \<open>k\<close>, with an
  identity \<open>i\<close>. \<^verbatim>\<open>int\<close> and \<^verbatim>\<open>uint\<close> have 64 bits (\<^verbatim>\<open>math.MinInt = math.MinInt64\<close>).
\<close>

datatype ikind = KInt | KInt8 | KInt16 | KInt32 | KInt64
datatype ukind = KUint | KUint8 | KUint16 | KUint32 | KUint64
datatype fkind = KFloat32 | KFloat64
datatype okind =
  KUintptr | KComplex64 | KComplex128 | KArray | KChan | KInterface | KMap | KPointer
  | KSliceOther | KStruct | KUnsafePointer

datatype kind =
  KInvalid | KBool | KSigned ikind | KUnsigned ukind | KFloat fkind | KString | KSlice | KFunc
  | KOther okind

record slice =
  sl_arr :: nat
  sl_off :: nat
  sl_len :: nat
  sl_cap :: nat

datatype val =
    NilV
  | BoolV bool
  | IntV ikind "64 word"
  | UintV ukind "64 word"
  | FloatV fkind "64 word"
  | StringV string
  | BytesV slice
  | FuncV nat
  | LazyFuncV val
  | Defined string val
  | Other okind nat

fun underlying :: "val \<Rightarrow> val" where
  "underlying (Defined n v) = underlying v"
| "underlying v = v"

text \<open>\<^verbatim>\<open>reflect.ValueOf(x).Kind()\<close>.\<close>

fun Kind :: "val \<Rightarrow> kind" where
  "Kind NilV = KInvalid"
| "Kind (BoolV b) = KBool"
| "Kind (IntV k w) = KSigned k"
| "Kind (UintV k w) = KUnsigned k"
| "Kind (FloatV k w) = KFloat k"
| "Kind (StringV s) = KString"
| "Kind (BytesV b) = KSlice"
| "Kind (FuncV f) = KFunc"
| "Kind (LazyFuncV f) = KOther KPointer"
| "Kind (Defined n v) = Kind v"
| "Kind (Other k i) = (if k = KSliceOther then KSlice else KOther k)"

text \<open>
  Errors. \<open>Wrapf m e\<close> is an error that wraps \<open>e\<close> with the message \<open>m\<close>
  (\<^verbatim>\<open>errors.Wrapf(e, m)\<close>, \<^verbatim>\<open>fmt.Errorf("m: %w", e)\<close>); \<open>NotDefined\<close> is the package's
  \<^verbatim>\<open>errNotDefined\<close>; \<open>NumError\<close> is \<^verbatim>\<open>*strconv.NumError\<close> with its function, input and
  cause. A panic carries the text that \<^verbatim>\<open>%s\<close> prints for its value.
\<close>

datatype num_err = ErrSyntax | ErrRange

datatype error =
    Errorf string
  | Wrapf string error
  | NotDefined string
  | NumError string string num_err

datatype 'a res = Ok 'a | Err error | Panic string

text \<open>\<^verbatim>\<open>errors.As(err, &notDefined)\<close>: some error of the chain is an \<^verbatim>\<open>errNotDefined\<close>.\<close>

fun As_errNotDefined :: "error \<Rightarrow> bool" where
  "As_errNotDefined (NotDefined m) = True"
| "As_errNotDefined (Wrapf m e) = As_errNotDefined e"
| "As_errNotDefined e = False"

section \<open>template: literals\<close>

text \<open>
  \<^verbatim>\<open>strconv.ParseInt(s, 0, 64)\<close> of Go's standard library, as \<^verbatim>\<open>executeBasicLit\<close> calls it:
  an optional sign, a base prefix (\<^verbatim>\<open>0b\<close>, \<^verbatim>\<open>0o\<close>, \<^verbatim>\<open>0x\<close>, or \<^verbatim>\<open>0\<close> for octal), the
  digits with \<^verbatim>\<open>_\<close> separators, read into a \<^verbatim>\<open>uint64\<close> with a range check at every
  digit, then the check against the signed range. Strings are byte sequences.
\<close>

definition lower :: "nat \<Rightarrow> nat" where
  "lower c = or c 32"

fun ParseUint_loop :: "64 word \<Rightarrow> 64 word \<Rightarrow> bool \<Rightarrow> nat list \<Rightarrow> num_err + 64 word \<times> bool" where
  "ParseUint_loop base n underscores [] = Inr (n, underscores)"
| "ParseUint_loop base n underscores (c # cs) =
    (if c = 95 then ParseUint_loop base n True cs
     else if \<not> ((48 \<le> c \<and> c \<le> 57) \<or> (97 \<le> lower c \<and> lower c \<le> 122)) then Inl ErrSyntax
     else
       let d = (if 48 \<le> c \<and> c \<le> 57 then c - 48 else lower c - 97 + 10) in
       if word_of_nat d \<ge> base then Inl ErrSyntax
       else if n \<ge> (- 1) div base + 1 then Inl ErrRange
       else
         let n = n * base;
             n1 = n + word_of_nat d
         in if n1 < n \<or> n1 > - 1 then Inl ErrRange
            else ParseUint_loop base n1 underscores cs)"

fun underscoreOK_loop :: "bool \<Rightarrow> char \<Rightarrow> nat list \<Rightarrow> bool" where
  "underscoreOK_loop hex saw [] = (saw \<noteq> CHR ''_'')"
| "underscoreOK_loop hex saw (c # cs) =
    (if (48 \<le> c \<and> c \<le> 57) \<or> (hex \<and> 97 \<le> lower c \<and> lower c \<le> 102)
     then underscoreOK_loop hex (CHR ''0'') cs
     else if c = 95 then (if saw \<noteq> CHR ''0'' then False else underscoreOK_loop hex (CHR ''_'') cs)
     else if saw = CHR ''_'' then False
     else underscoreOK_loop hex (CHR ''!'') cs)"

definition underscoreOK :: "nat list \<Rightarrow> bool" where
  "underscoreOK s0 =
    (let s = (case s0 of c # cs \<Rightarrow> if c = 45 \<or> c = 43 then cs else s0 | [] \<Rightarrow> s0) in
     case s of
       c0 # c1 # cs \<Rightarrow>
         if c0 = 48 \<and> (lower c1 = 98 \<or> lower c1 = 111 \<or> lower c1 = 120)
         then underscoreOK_loop (lower c1 = 120) (CHR ''0'') cs
         else underscoreOK_loop False (CHR ''^'') s
     | _ \<Rightarrow> underscoreOK_loop False (CHR ''^'') s)"

definition ParseUint :: "nat list \<Rightarrow> num_err + 64 word" where
  "ParseUint s0 =
    (if s0 = [] then Inl ErrSyntax
     else
       let (base, s) =
             (if hd s0 = 48 then
                (if length s0 \<ge> 3 \<and> lower (s0 ! 1) = 98 then (2, drop 2 s0)
                 else if length s0 \<ge> 3 \<and> lower (s0 ! 1) = 111 then (8, drop 2 s0)
                 else if length s0 \<ge> 3 \<and> lower (s0 ! 1) = 120 then (16, drop 2 s0)
                 else (8, drop 1 s0))
              else (10, s0))
       in case ParseUint_loop base 0 False s of
            Inl e \<Rightarrow> Inl e
          | Inr (n, underscores) \<Rightarrow>
              if underscores \<and> \<not> underscoreOK s0 then Inl ErrSyntax else Inr n)"

definition ParseInt :: "string \<Rightarrow> num_err + 64 word" where
  "ParseInt str =
    (let s0 = map of_char str in
     if s0 = [] then Inl ErrSyntax
     else
       let neg = (hd s0 = 45);
           s = (if hd s0 = 43 \<or> hd s0 = 45 then tl s0 else s0)
       in case ParseUint s of
            Inl ErrSyntax \<Rightarrow> Inl ErrSyntax
          | Inl ErrRange \<Rightarrow> Inl ErrRange
          | Inr un \<Rightarrow>
              if \<not> neg \<and> un \<ge> 0x8000000000000000 then Inl ErrRange
              else if neg \<and> un > 0x8000000000000000 then Inl ErrRange
              else Inr (if neg then - un else un))"

definition executeBasicLit ::
  "(string \<Rightarrow> num_err + 64 word) \<Rightarrow> (token \<Rightarrow> string) \<Rightarrow> token \<Rightarrow> string \<Rightarrow> val res" where
  "executeBasicLit ParseFloat tokenString k Value =
    (case k of
       STRING \<Rightarrow> Ok (StringV Value)
     | INT_t \<Rightarrow>
         (case ParseInt Value of
            Inl err \<Rightarrow> Err (Wrapf (''invalid AST: \"'' @ Value @ ''\" is not an integer'')
                                 (NumError ''ParseInt'' Value err))
          | Inr i \<Rightarrow> Ok (IntV KInt64 i))
     | FLOAT \<Rightarrow>
         (case ParseFloat Value of
            Inl err \<Rightarrow> Err (Wrapf (''invalid AST: \"'' @ Value @ ''\" is not a float'')
                                 (NumError ''ParseFloat'' Value err))
          | Inr f \<Rightarrow> Ok (FloatV KFloat64 f))
     | BOOL \<Rightarrow>
         (if Value = ''true'' then Ok (BoolV True)
          else if Value = ''false'' then Ok (BoolV False)
          else Err (Errorf (''invalid bool literal \"'' @ Value @ ''\"'')))
     | _ \<Rightarrow> Err (Errorf (''unknown basic literal \"'' @ tokenString k @ ''\"'')))"

section \<open>template: byte slices and their backing arrays\<close>

text \<open>
  A \<^verbatim>\<open>[]byte\<close> is a slice header (array, offset, length, capacity); the arrays live in
  the heap, a list indexed by address. \<^verbatim>\<open>append(s, ys...)\<close> writes into the array of \<open>s\<close>
  when the capacity suffices and returns a header on the same array; otherwise it allocates
  a new array (at the next free address) whose capacity the runtime chooses (parameter
  \<open>growslice\<close>, at least the length needed).
\<close>

type_synonym mem = "8 word list list"

definition array_at :: "mem \<Rightarrow> nat \<Rightarrow> 8 word list" where
  "array_at m a = (if a < length m then m ! a else [])"

definition slice_bytes :: "mem \<Rightarrow> slice \<Rightarrow> 8 word list" where
  "slice_bytes m s = take (sl_len s) (drop (sl_off s) (array_at m (sl_arr s)))"

definition write_at :: "8 word list \<Rightarrow> nat \<Rightarrow> 8 word list \<Rightarrow> 8 word list" where
  "write_at a i ys = take i a @ ys @ drop (i + length ys) a"

definition go_append :: "(nat \<Rightarrow> nat \<Rightarrow> nat) \<Rightarrow> mem \<Rightarrow> slice \<Rightarrow> 8 word list \<Rightarrow> slice \<times> mem" where
  "go_append growslice m s ys =
    (let n = sl_len s + length ys in
     if n \<le> sl_cap s then
       (s\<lparr>sl_len := n\<rparr>,
        if ys = [] then m
        else m[sl_arr s := write_at (array_at m (sl_arr s)) (sl_off s + sl_len s) ys])
     else
       let c = max n (growslice (sl_cap s) n) in
       (\<lparr>sl_arr = length m, sl_off = 0, sl_len = n, sl_cap = c\<rparr>,
        m @ [slice_bytes m s @ ys @ replicate (c - n) 0]))"

text \<open>\<^verbatim>\<open>bytes.Compare\<close>, also the order of \<^verbatim>\<open><\<close> on strings: \<open>-1\<close>, \<open>0\<close> or \<open>1\<close>.\<close>

fun Compare :: "nat list \<Rightarrow> nat list \<Rightarrow> int" where
  "Compare [] [] = 0"
| "Compare [] (y # ys) = - 1"
| "Compare (x # xs) [] = 1"
| "Compare (x # xs) (y # ys) = (if x < y then - 1 else if y < x then 1 else Compare xs ys)"

section \<open>template: the host\<close>

text \<open>
  What the evaluator calls and the sources at hand do not hold: \<^verbatim>\<open>lookup\<close>, \<^verbatim>\<open>extract\<close>,
  \<^verbatim>\<open>comparable\<close>, \<^verbatim>\<open>reflectEqual\<close>, \<^verbatim>\<open>convert\<close> and the package-level \<^verbatim>\<open>Execute\<close> of the
  same package, \<^verbatim>\<open>reflectutil\<close>, the YAML library, \<^verbatim>\<open>reflect\<close> on function types, the
  functions of the data tree themselves, floating-point arithmetic, and the formatting of
  values and types by \<^verbatim>\<open>fmt\<close>. They are the fields of a record that every function of the
  evaluator takes. A \<^verbatim>\<open>reflect.Type\<close> is an identity; a \<^verbatim>\<open>reflect.Value\<close> returned by a call
  is an \<open>rvalue\<close>.

  \<^item> \<open>h_lookup\<close>, \<open>h_extract\<close>: \<^verbatim>\<open>lookup(e, data)\<close> and \<^verbatim>\<open>extract(e, data)\<close>;
  \<^item> \<open>h_Elem\<close>: \<^verbatim>\<open>reflectutil.Elem(reflect.ValueOf(v))\<close>, which dereferences pointers;
  \<^item> \<open>h_Marshal\<close>: \<^verbatim>\<open>yaml.Marshal\<close>;
  \<^item> \<open>h_ParseFloat\<close>: \<^verbatim>\<open>strconv.ParseFloat(s, 64)\<close>;
  \<^item> \<open>h_floatArith\<close>, \<open>h_floatCompare\<close>: \<^verbatim>\<open>+ - * /\<close> and \<^verbatim>\<open>< <= > >=\<close> on \<^verbatim>\<open>float64\<close>;
  \<^item> \<open>h_isFunc\<close>: the type assertion \<^verbatim>\<open>v.(Func)\<close>;
  \<^item> \<open>h_leftArrow\<close>: \<^verbatim>\<open>f.UnmarshalArg\<close> with the decoding callback (which reads the function
    stash), then \<^verbatim>\<open>f.Exec\<close>;
  \<^item> \<open>h_getMethod\<close>: \<^verbatim>\<open>getMethod\<close>, which is \<^verbatim>\<open>reflect\<close>'s method tables (receiver and method);
  \<^item> \<open>h_NumIn\<close>, \<open>h_IsVariadic\<close>, \<open>h_In\<close>: the type of a function value; \<open>h_ElemType\<close>:
    \<^verbatim>\<open>Type.Elem\<close>; \<open>h_TypeOf\<close>: \<^verbatim>\<open>Value.Type\<close>; \<open>h_Convert\<close>: \<^verbatim>\<open>reflectutil.Convert\<close>;
  \<^item> \<open>h_Call\<close>: \<^verbatim>\<open>fn.Call(args)\<close>, which may write the heap and may panic;
  \<^item> \<open>h_TypeError\<close>: \<^verbatim>\<open>reflectutil.TypeError\<close>; \<open>h_asError\<close>: a non-nil \<^verbatim>\<open>error\<close> value as an error;
  \<^item> \<open>h_fmtT\<close>, \<open>h_fmtV\<close>, \<open>h_fmtType\<close>, \<open>h_tokenString\<close>: \<^verbatim>\<open>%T\<close> and \<^verbatim>\<open>%#v\<close> of a value,
    \<^verbatim>\<open>%s\<close> of a type and of a token;
  \<^item> \<open>h_growslice\<close>: the capacity of the array that \<^verbatim>\<open>append\<close> allocates.
\<close>

datatype rtype = RType nat

record rvalue =
  rv_IsValid :: bool
  rv_CanInterface :: bool
  rv_Type :: rtype
  rv_Interface :: val

record host =
  h_lookup :: "expr \<Rightarrow> val \<Rightarrow> val res"
  h_extract :: "expr \<Rightarrow> val \<Rightarrow> val res"
  h_Elem :: "val \<Rightarrow> val"
  h_Marshal :: "mem \<Rightarrow> val \<Rightarrow> string res"
  h_ParseFloat :: "string \<Rightarrow> num_err + 64 word"
  h_floatArith :: "token \<Rightarrow> 64 word \<Rightarrow> 64 word \<Rightarrow> 64 word"
  h_floatCompare :: "token \<Rightarrow> 64 word \<Rightarrow> 64 word \<Rightarrow> bool"
  h_comparable :: "val \<Rightarrow> bool"
  h_reflectEqual :: "mem \<Rightarrow> val \<Rightarrow> val \<Rightarrow> bool"
  h_isFunc :: "val \<Rightarrow> bool"
  h_leftArrow :: "val \<Rightarrow> string \<Rightarrow> (string \<times> val) list \<Rightarrow> mem \<Rightarrow> val res \<times> mem"
  h_getMethod :: "val \<Rightarrow> string \<Rightarrow> (val \<times> val) option res"
  h_NumIn :: "val \<Rightarrow> nat"
  h_IsVariadic :: "val \<Rightarrow> bool"
  h_In :: "val \<Rightarrow> nat \<Rightarrow> rtype"
  h_ElemType :: "rtype \<Rightarrow> rtype"
  h_TypeOf :: "val \<Rightarrow> rtype"
  h_Convert :: "rtype \<Rightarrow> val \<Rightarrow> val option"
  h_Call :: "val \<Rightarrow> val list \<Rightarrow> mem \<Rightarrow> rvalue list res \<times> mem"
  h_TypeError :: rtype
  h_asError :: "val \<Rightarrow> error"
  h_fmtT :: "val \<Rightarrow> string"
  h_fmtV :: "val \<Rightarrow> string"
  h_fmtType :: "rtype \<Rightarrow> string"
  h_tokenString :: "token \<Rightarrow> string"
  h_growslice :: "nat \<Rightarrow> nat \<Rightarrow> nat"

section \<open>template: unary operators\<close>

definition MaxInt64 :: "64 word" where
  "MaxInt64 = 0x7FFFFFFFFFFFFFFF"

definition MinInt64 :: "64 word" where
  "MinInt64 = 0x8000000000000000"

text \<open>The least value of each signed type, sign-extended, and the type's name.\<close>

fun MinOf :: "ikind \<Rightarrow> 64 word" where
  "MinOf KInt = MinInt64"
| "MinOf KInt8 = - 0x80"
| "MinOf KInt16 = - 0x8000"
| "MinOf KInt32 = - 0x80000000"
| "MinOf KInt64 = MinInt64"

fun ikind_name :: "ikind \<Rightarrow> string" where
  "ikind_name KInt = ''int''"
| "ikind_name KInt8 = ''int8''"
| "ikind_name KInt16 = ''int16''"
| "ikind_name KInt32 = ''int32''"
| "ikind_name KInt64 = ''int64''"

text \<open>
  \<^verbatim>\<open>executeUnaryExpr\<close> after its operand \<open>x\<close> is evaluated. The type switch is on the
  dynamic type of \<^verbatim>\<open>reflectutil.Elem(reflect.ValueOf(x))\<close>: a value of a defined type matches
  no case. \<^verbatim>\<open>uint8\<close> and \<^verbatim>\<open>uint16\<close> are negated with no check; the check of \<^verbatim>\<open>uint\<close>,
  \<^verbatim>\<open>uint32\<close> and \<^verbatim>\<open>uint64\<close> is against \<^verbatim>\<open>-math.MinInt\<close>, which is \<open>2 ^ 63\<close>. A float is
  negated by its sign bit.
\<close>

definition executeUnaryExpr_value :: "host \<Rightarrow> token \<Rightarrow> val \<Rightarrow> val res" where
  "executeUnaryExpr_value h op x =
    (let v = h_Elem h x;
         unknown = Err (Errorf (''unknown operation: operator '' @ h_tokenString h op
                                @ '' not defined on '' @ h_fmtT h x))
     in case op of
          SUB \<Rightarrow>
            (case v of
               IntV k n \<Rightarrow>
                 if n = MinOf k
                 then Err (Errorf (''-('' @ Itoa (sint n) @ '') overflows '' @ ikind_name k))
                 else Ok (IntV k (- n))
             | UintV k n \<Rightarrow>
                 if (k = KUint \<or> k = KUint32 \<or> k = KUint64) \<and> n > 0x8000000000000000
                 then Err (Errorf (''-'' @ Itoa (uint n) @ '' overflows int''))
                 else Ok (IntV KInt (- n))
             | FloatV k n \<Rightarrow> Ok (FloatV k (xor n 0x8000000000000000))
             | _ \<Rightarrow> unknown)
        | NOT \<Rightarrow> (case v of BoolV b \<Rightarrow> Ok (BoolV (\<not> b)) | _ \<Rightarrow> unknown)
        | _ \<Rightarrow> unknown)"

section \<open>template: binary operators\<close>

text \<open>
  Go's \<^verbatim>\<open>/\<close> and \<^verbatim>\<open>%\<close> on \<^verbatim>\<open>int64\<close> truncate towards zero; the quotient of the least
  value by \<open>-1\<close> wraps around.
\<close>

definition quo64 :: "64 word \<Rightarrow> 64 word \<Rightarrow> 64 word" where
  "quo64 a b = word_of_int (sint a sdiv sint b)"

definition rem64 :: "64 word \<Rightarrow> 64 word \<Rightarrow> 64 word" where
  "rem64 a b = word_of_int (sint a smod sint b)"

text \<open>
  The branch of \<^verbatim>\<open>executeBinaryExpr\<close> for the signed kinds, on the two operands
  converted to \<^verbatim>\<open>int64\<close>; \<open>None\<close> when the operator is none of the switch, and control
  falls to the last \<^verbatim>\<open>return\<close> of the function.
\<close>

definition signedBinary :: "token \<Rightarrow> 64 word \<Rightarrow> 64 word \<Rightarrow> val res option" where
  "signedBinary op xi yi =
    (case op of
       ADD \<Rightarrow> Some (
         if (0 <s yi \<and> MaxInt64 - yi <s xi) \<or> (yi <s 0 \<and> xi <s MinInt64 - yi)
         then Err (Errorf (Itoa (sint xi) @ '' + '' @ Itoa (sint yi) @ '' overflows int''))
         else Ok (IntV KInt64 (xi + yi)))
     | SUB \<Rightarrow> Some (
         if (yi <s 0 \<and> MaxInt64 + yi <s xi) \<or> (0 <s yi \<and> xi <s MinInt64 + yi)
         then Err (Errorf (Itoa (sint xi) @ '' - '' @ Itoa (sint yi) @ '' overflows int''))
         else Ok (IntV KInt64 (xi - yi)))
     | MUL \<Rightarrow> Some (
         if (0 <s xi \<and> 0 <s yi \<and> quo64 MaxInt64 yi <s xi)
            \<or> (xi <s 0 \<and> yi <s 0 \<and> xi <s quo64 MaxInt64 yi)
            \<or> (0 <s xi \<and> yi <s 0 \<and> yi <s quo64 MinInt64 xi)
            \<or> (xi <s 0 \<and> 0 <s yi \<and> xi <s quo64 MinInt64 yi)
         then Err (Errorf (Itoa (sint xi) @ '' * '' @ Itoa (sint yi) @ '' overflows int''))
         else Ok (IntV KInt64 (xi * yi)))
     | QUO \<Rightarrow> Some (if yi = 0 then Err (Errorf ''division by 0'') else Ok (IntV KInt64 (quo64 xi yi)))
     | REM \<Rightarrow> Some (if yi = 0 then Err (Errorf ''division by 0'') else Ok (IntV KInt64 (rem64 xi yi)))
     | LSS \<Rightarrow> Some (Ok (BoolV (xi <s yi)))
     | LEQ \<Rightarrow> Some (Ok (BoolV (xi \<le>s yi)))
     | GTR \<Rightarrow> Some (Ok (BoolV (yi <s xi)))
     | GEQ \<Rightarrow> Some (Ok (BoolV (yi \<le>s xi)))
     | _ \<Rightarrow> None)"

text \<open>
  The branch for the unsigned kinds. The check of \<^verbatim>\<open>*\<close> divides by \<open>yi\<close> before any test
  of it: a zero \<open>yi\<close> is a run-time panic.
\<close>

definition unsignedBinary :: "token \<Rightarrow> 64 word \<Rightarrow> 64 word \<Rightarrow> val res option" where
  "unsignedBinary op xi yi =
    (case op of
       ADD \<Rightarrow> Some (
         if yi > 0 \<and> xi > (- 1) - yi
         then Err (Errorf (Itoa (uint xi) @ '' + '' @ Itoa (uint yi) @ '' overflows uint''))
         else Ok (UintV KUint64 (xi + yi)))
     | SUB \<Rightarrow> Some (
         if xi < yi
         then Err (Errorf (Itoa (uint xi) @ '' - '' @ Itoa (uint yi) @ '' overflows uint''))
         else Ok (UintV KUint64 (xi - yi)))
     | MUL \<Rightarrow> Some (
         if yi = 0 then Panic ''runtime error: integer divide by zero''
         else if xi > (- 1) div yi
         then Err (Errorf (Itoa (uint xi) @ '' * '' @ Itoa (uint yi) @ '' overflows uint''))
         else Ok (UintV KUint64 (xi * yi)))
     | QUO \<Rightarrow> Some (if yi = 0 then Err (Errorf ''division by 0'') else Ok (UintV KUint64 (xi div yi)))
     | REM \<Rightarrow> Some (if yi = 0 then Err (Errorf ''division by 0'') else Ok (UintV KUint64 (xi mod yi)))
     | LSS \<Rightarrow> Some (Ok (BoolV (xi < yi)))
     | LEQ \<Rightarrow> Some (Ok (BoolV (xi \<le> yi)))
     | GTR \<Rightarrow> Some (Ok (BoolV (xi > yi)))
     | GEQ \<Rightarrow> Some (Ok (BoolV (xi \<ge> yi)))
     | _ \<Rightarrow> None)"

text \<open>The branch for the floats: \<^verbatim>\<open>yf == 0.0\<close> holds of both zeros.\<close>

definition floatBinary :: "host \<Rightarrow> token \<Rightarrow> 64 word \<Rightarrow> 64 word \<Rightarrow> val res option" where
  "floatBinary h op xf yf =
    (case op of
       ADD \<Rightarrow> Some (Ok (FloatV KFloat64 (h_floatArith h ADD xf yf)))
     | SUB \<Rightarrow> Some (Ok (FloatV KFloat64 (h_floatArith h SUB xf yf)))
     | MUL \<Rightarrow> Some (Ok (FloatV KFloat64 (h_floatArith h MUL xf yf)))
     | QUO \<Rightarrow> Some (if yf = 0 \<or> yf = 0x8000000000000000 then Err (Errorf ''division by 0'')
                     else Ok (FloatV KFloat64 (h_floatArith h QUO xf yf)))
     | LSS \<Rightarrow> Some (Ok (BoolV (h_floatCompare h LSS xf yf)))
     | LEQ \<Rightarrow> Some (Ok (BoolV (h_floatCompare h LEQ xf yf)))
     | GTR \<Rightarrow> Some (Ok (BoolV (h_floatCompare h GTR xf yf)))
     | GEQ \<Rightarrow> Some (Ok (BoolV (h_floatCompare h GEQ xf yf)))
     | _ \<Rightarrow> None)"

definition boolBinary :: "token \<Rightarrow> bool \<Rightarrow> bool \<Rightarrow> val res option" where
  "boolBinary op xb yb =
    (case op of
       LAND \<Rightarrow> Some (Ok (BoolV (xb \<and> yb)))
     | LOR \<Rightarrow> Some (Ok (BoolV (xb \<or> yb)))
     | _ \<Rightarrow> None)"

text \<open>
  \<^verbatim>\<open>addIndent\<close>. \<^verbatim>\<open>strings.Split(s, "\n")\<close> cuts at every line feed and keeps the empty
  pieces; \<^verbatim>\<open>len([]rune(s))\<close> counts the runes of the UTF-8 decoding of \<open>s\<close>, one for every
  byte that starts no valid encoding. The writes to a \<^verbatim>\<open>strings.Builder\<close> return no error.
\<close>

fun Split_nl :: "string \<Rightarrow> string list" where
  "Split_nl [] = [[]]"
| "Split_nl (c # cs) =
    (if c = CHR 0x0A then [] # Split_nl cs
     else (case Split_nl cs of l # ls \<Rightarrow> (c # l) # ls | [] \<Rightarrow> [[c]]))"

definition rune_width :: "nat list \<Rightarrow> nat" where
  "rune_width s =
    (case s of
       [] \<Rightarrow> 0
     | b0 # r \<Rightarrow>
         if b0 < 0xC2 then 1
         else if b0 \<le> 0xDF then
           (case r of b1 # r1 \<Rightarrow> if 0x80 \<le> b1 \<and> b1 \<le> 0xBF then 2 else 1 | [] \<Rightarrow> 1)
         else if b0 \<le> 0xEF then
           (case r of
              b1 # b2 # r2 \<Rightarrow>
                if (if b0 = 0xE0 then 0xA0 else 0x80) \<le> b1 \<and> b1 \<le> (if b0 = 0xED then 0x9F else 0xBF)
                   \<and> 0x80 \<le> b2 \<and> b2 \<le> 0xBF
                then 3 else 1
            | _ \<Rightarrow> 1)
         else if b0 \<le> 0xF4 then
           (case r of
              b1 # b2 # b3 # r3 \<Rightarrow>
                if (if b0 = 0xF0 then 0x90 else 0x80) \<le> b1 \<and> b1 \<le> (if b0 = 0xF4 then 0x8F else 0xBF)
                   \<and> 0x80 \<le> b2 \<and> b2 \<le> 0xBF \<and> 0x80 \<le> b3 \<and> b3 \<le> 0xBF
                then 4 else 1
            | _ \<Rightarrow> 1)
         else 1)"

fun count_runes :: "nat \<Rightarrow> nat list \<Rightarrow> nat" where
  "count_runes skip [] = 0"
| "count_runes skip (b # r) =
    (if skip > 0 then count_runes (skip - 1) r
     else 1 + count_runes (rune_width (b # r) - 1) r)"

definition RuneCount :: "string \<Rightarrow> nat" where
  "RuneCount s = count_runes 0 (map of_char s)"

fun addIndent_loop :: "string \<Rightarrow> nat \<Rightarrow> string list \<Rightarrow> string \<Rightarrow> string" where
  "addIndent_loop prefix i [] b = b"
| "addIndent_loop prefix i (s # ss) b =
    (let b = (if i \<noteq> 0
              then (let b = b @ [CHR 0x0A] in if s \<noteq> [] then b @ prefix else b)
              else b)
     in addIndent_loop prefix (i + 1) ss (b @ s))"

definition addIndent :: "bool \<Rightarrow> string \<Rightarrow> string \<Rightarrow> string" where
  "addIndent executingLeftArrowExprArg str preStr =
    (if executingLeftArrowExprArg then
       (if CHR 0x0A \<in> set str \<and> preStr \<noteq> [] then
          (let lines = Split_nl preStr;
               prefix = replicate (RuneCount (last lines)) (CHR '' '')
           in addIndent_loop prefix 0 (Split_nl str) [])
        else str)
     else str)"

definition stringBinary :: "bool \<Rightarrow> bool \<Rightarrow> token \<Rightarrow> string \<Rightarrow> string \<Rightarrow> val res option" where
  "stringBinary executingLeftArrowExprArg Y_is_ParameterExpr op xs ys =
    (case op of
       ADD \<Rightarrow>
         (let ys = (if executingLeftArrowExprArg then
                      (if Y_is_ParameterExpr then addIndent executingLeftArrowExprArg ys xs else ys)
                    else ys)
          in Some (Ok (StringV (xs @ ys))))
     | LSS \<Rightarrow> Some (Ok (BoolV (Compare (map of_char xs) (map of_char ys) < 0)))
     | LEQ \<Rightarrow> Some (Ok (BoolV (Compare (map of_char xs) (map of_char ys) \<le> 0)))
     | GTR \<Rightarrow> Some (Ok (BoolV (Compare (map of_char xs) (map of_char ys) > 0)))
     | GEQ \<Rightarrow> Some (Ok (BoolV (Compare (map of_char xs) (map of_char ys) \<ge> 0)))
     | _ \<Rightarrow> None)"

text \<open>The branch for \<^verbatim>\<open>[]byte\<close>: \<^verbatim>\<open>+\<close> is \<^verbatim>\<open>append(xb, yb...)\<close>.\<close>

definition bytesBinary ::
  "(nat \<Rightarrow> nat \<Rightarrow> nat) \<Rightarrow> token \<Rightarrow> slice \<Rightarrow> slice \<Rightarrow> mem \<Rightarrow> (val res \<times> mem) option" where
  "bytesBinary growslice op xb yb m =
    (let c = Compare (map unat (slice_bytes m xb)) (map unat (slice_bytes m yb)) in
     case op of
       ADD \<Rightarrow> (let (r, m') = go_append growslice m xb (slice_bytes m yb) in Some (Ok (BytesV r), m'))
     | LSS \<Rightarrow> Some (Ok (BoolV (c < 0)), m)
     | LEQ \<Rightarrow> Some (Ok (BoolV (c \<le> 0)), m)
     | GTR \<Rightarrow> Some (Ok (BoolV (c > 0)), m)
     | GEQ \<Rightarrow> Some (Ok (BoolV (c \<ge> 0)), m)
     | _ \<Rightarrow> None)"

text \<open>\<^verbatim>\<open>equal\<close>: the result and whether the operands can be compared.\<close>

definition equal_reflect :: "host \<Rightarrow> mem \<Rightarrow> val \<Rightarrow> val \<Rightarrow> bool \<times> bool" where
  "equal_reflect h m x y =
    (if Kind x = KInvalid then (True, True)
     else if h_comparable h x then (h_reflectEqual h m x y, True)
     else if Kind x = KSlice then
       (case x of
          BytesV xb \<Rightarrow>
            (case y of BytesV yb \<Rightarrow> (slice_bytes m xb = slice_bytes m yb, True) | _ \<Rightarrow> (False, False))
        | _ \<Rightarrow> (False, False))
     else (False, False))"

text \<open>
  The conversions \<^verbatim>\<open>xv.Convert(typeInt64).Interface().(int64)\<close> and its siblings, each used
  only on a value of a kind that converts.
\<close>

definition to_word :: "val \<Rightarrow> 64 word" where
  "to_word v = (case underlying v of IntV k w \<Rightarrow> w | UintV k w \<Rightarrow> w | FloatV k w \<Rightarrow> w | _ \<Rightarrow> 0)"

definition to_bool :: "val \<Rightarrow> bool" where
  "to_bool v = (case underlying v of BoolV b \<Rightarrow> b | _ \<Rightarrow> False)"

definition to_string :: "val \<Rightarrow> string" where
  "to_string v = (case underlying v of StringV s \<Rightarrow> s | _ \<Rightarrow> [])"

text \<open>
  \<^verbatim>\<open>executeBinaryExpr\<close> after both operands are evaluated (from \<^verbatim>\<open>xv := reflect.ValueOf(x)\<close>
  on). \<open>Y_is_ParameterExpr\<close> is the type assertion on \<^verbatim>\<open>e.Y\<close>.
\<close>

definition executeBinaryExpr_values ::
  "host \<Rightarrow> bool \<Rightarrow> bool \<Rightarrow> token \<Rightarrow> val \<Rightarrow> val \<Rightarrow> mem \<Rightarrow> val res \<times> mem" where
  "executeBinaryExpr_values h executingLeftArrowExprArg Y_is_ParameterExpr op x y m =
    (let notDefined = Err (Errorf (''operator '' @ h_tokenString h op @ '' not defined on '' @ h_fmtV h x
                                   @ '' (value of type '' @ h_fmtT h x @ '')''));
         fall = (\<lambda>r. case r of Some v \<Rightarrow> (v, m) | None \<Rightarrow> (notDefined, m))
     in
     if Kind x \<noteq> Kind y
     then (Err (Errorf (h_fmtV h x @ '' '' @ h_tokenString h op @ '' '' @ h_fmtV h y
                        @ '': mismatched types '' @ h_fmtT h x @ '' and '' @ h_fmtT h y)), m)
     else if op = EQL \<and> snd (equal_reflect h m x y) then (Ok (BoolV (fst (equal_reflect h m x y))), m)
     else if op = NEQ \<and> snd (equal_reflect h m x y) then (Ok (BoolV (\<not> fst (equal_reflect h m x y))), m)
     else
       (case Kind x of
          KSigned k \<Rightarrow> fall (signedBinary op (to_word x) (to_word y))
        | KUnsigned k \<Rightarrow> fall (unsignedBinary op (to_word x) (to_word y))
        | KFloat k \<Rightarrow> fall (floatBinary h op (to_word x) (to_word y))
        | KBool \<Rightarrow> fall (boolBinary op (to_bool x) (to_bool y))
        | KString \<Rightarrow> fall (stringBinary executingLeftArrowExprArg Y_is_ParameterExpr op (to_string x) (to_string y))
        | KSlice \<Rightarrow>
            (case x of
               BytesV xb \<Rightarrow>
                 (case y of
                    BytesV yb \<Rightarrow>
                      (case bytesBinary (h_growslice h) op xb yb m of
                         Some r \<Rightarrow> r
                       | None \<Rightarrow> (notDefined, m))
                  | _ \<Rightarrow> (notDefined, m))
             | _ \<Rightarrow> (notDefined, m))
        | KInvalid \<Rightarrow> (Err (Errorf (''operator '' @ h_tokenString h op @ '' not defined on nil'')), m)
        | _ \<Rightarrow> (notDefined, m)))"

section \<open>template: the evaluator\<close>

text \<open>
  The state that an evaluation changes: the function stash \<^verbatim>\<open>argFuncs\<close>, which a template
  and the child templates of its left-arrow arguments share, and the heap of byte arrays.
  The stash is a Go map; it is kept as an association list in insertion order, updated
  in place at a key it already holds, and \<^verbatim>\<open>len\<close> is its length.
\<close>

record state =
  argFuncs :: "(string \<times> val) list"
  heap :: mem

definition save :: "(string \<times> val) list \<Rightarrow> val \<Rightarrow> string \<times> (string \<times> val) list" where
  "save s f =
    (let name = ''func-'' @ Itoa (int (length s))
     in (name, AList.update name f s))"

definition TrimSuffix :: "string \<Rightarrow> string \<Rightarrow> string" where
  "TrimSuffix s suffix =
    (if length suffix \<le> length s \<and> drop (length s - length suffix) s = suffix
     then take (length s - length suffix) s else s)"

text \<open>\<^verbatim>\<open>executeParameterExpr\<close> after the inner expression is evaluated to \<open>v\<close>.\<close>

definition executeParameterExpr_value :: "host \<Rightarrow> bool \<Rightarrow> bool \<Rightarrow> val \<Rightarrow> state \<Rightarrow> val res \<times> state" where
  "executeParameterExpr_value h executingLeftArrowExprArg Quoted v s =
    (if executingLeftArrowExprArg then
       (if Kind (h_Elem h v) = KFunc then
          (let (name, stash) = save (argFuncs s) v in
           if Quoted then (Ok (StringV ([CHR 0x27] @ ''{{'' @ name @ ''}}'' @ [CHR 0x27])), s\<lparr>argFuncs := stash\<rparr>)
           else (Ok (StringV (''{{'' @ name @ ''}}'')), s\<lparr>argFuncs := stash\<rparr>))
        else
          (case h_Marshal h (heap s) v of
             Ok b \<Rightarrow> (Ok (StringV (TrimSuffix b [CHR 0x0A])), s)
           | Err err \<Rightarrow> (Err err, s)
           | Panic p \<Rightarrow> (Panic p, s)))
     else (Ok v, s))"

definition executeDefinedExpr :: "host \<Rightarrow> expr \<Rightarrow> val \<Rightarrow> val res" where
  "executeDefinedExpr h Arg data =
    (let found = (case h_extract h Arg data of
                    Err err \<Rightarrow> if As_errNotDefined err then Ok (BoolV False) else Err err
                  | Panic p \<Rightarrow> Panic p
                  | Ok v \<Rightarrow> Ok (BoolV True))
     in case Arg of
          Ident n \<Rightarrow> found
        | SelectorExpr X sel \<Rightarrow> found
        | IndexExpr X i \<Rightarrow> found
        | _ \<Rightarrow> Err (Errorf ''invalid argument to defined()''))"

text \<open>\<^verbatim>\<open>executeConditionalExpr\<close> after the condition: the branch to evaluate, or the error.\<close>

definition condition_of :: "host \<Rightarrow> val \<Rightarrow> error + bool" where
  "condition_of h c =
    (case c of
       BoolV b \<Rightarrow> Inr b
     | _ \<Rightarrow> Inl (Errorf (''invalid operation: operator ? not defined on '' @ h_fmtV h c
                         @ '' (value of type '' @ h_fmtT h c @ '')'')))"

text \<open>
  The parts of \<^verbatim>\<open>executeFuncCall\<close> and \<^verbatim>\<open>executeArgs\<close> between the evaluations of
  sub-expressions: the callee of a selector (a field, or else a method with its
  receiver as first argument), the check of the number of arguments, the type required
  of an argument and its conversion, and the reading of the results.
\<close>

definition resolveSelector :: "host \<Rightarrow> string \<Rightarrow> val \<Rightarrow> (val \<times> val list) res" where
  "resolveSelector h Sel x =
    (case h_lookup h (Ident Sel) x of
       Ok v \<Rightarrow> Ok (v, [])
     | Panic p \<Rightarrow> Panic p
     | Err err \<Rightarrow>
         (case h_getMethod h x Sel of
            Ok (Some (r, m)) \<Rightarrow> Ok (m, [r])
          | Ok None \<Rightarrow> Err err
          | Err e \<Rightarrow> Err e
          | Panic p \<Rightarrow> Panic p))"

definition checkArity :: "host \<Rightarrow> val \<Rightarrow> nat \<Rightarrow> error option" where
  "checkArity h fn argNum =
    (if h_IsVariadic h fn then
       (let minArgNum = h_NumIn h fn - 1 in
        if argNum < minArgNum
        then Some (Errorf (''too few arguments to function: expected minimum argument number is ''
                           @ Itoa (int minArgNum) @ ''. but specified '' @ Itoa (int argNum) @ '' arguments''))
        else None)
     else if h_NumIn h fn \<noteq> argNum
     then Some (Errorf (''expected function argument number is '' @ Itoa (int (h_NumIn h fn))
                        @ '' but specified '' @ Itoa (int argNum) @ '' arguments''))
     else None)"

definition requiredFuncArgType :: "host \<Rightarrow> val \<Rightarrow> nat \<Rightarrow> rtype" where
  "requiredFuncArgType h fn argIdx =
    (if \<not> h_IsVariadic h fn then h_In h fn argIdx
     else
       let argNum = h_NumIn h fn;
           lastArgIdx = argNum - 1
       in if argIdx < lastArgIdx then h_In h fn argIdx
          else h_ElemType h (h_In h fn lastArgIdx))"

definition convertArg :: "host \<Rightarrow> string \<Rightarrow> val \<Rightarrow> nat \<Rightarrow> nat \<Rightarrow> val \<Rightarrow> error + val" where
  "convertArg h fnName fn n i a =
    (let requiredType = requiredFuncArgType h fn n;
         v = (case h_Convert h requiredType a of Some vv \<Rightarrow> vv | None \<Rightarrow> a)
     in if v = NilV
        then Inl (Errorf (''can't use nil as '' @ h_fmtType h requiredType @ '' in arguments[''
                          @ Itoa (int i) @ ''] to '' @ fnName))
        else if h_TypeOf h v \<noteq> requiredType
        then Inl (Errorf (''can't use '' @ h_fmtType h (h_TypeOf h v) @ '' as '' @ h_fmtType h requiredType
                          @ '' in arguments['' @ Itoa (int i) @ ''] to '' @ fnName))
        else Inr v)"

definition callResult :: "host \<Rightarrow> rvalue list \<Rightarrow> val res" where
  "callResult h vs =
    (case vs of
       [v0] \<Rightarrow>
         if \<not> rv_IsValid v0 \<or> \<not> rv_CanInterface v0
         then Err (Errorf ''function returns an invalid value'')
         else Ok (rv_Interface v0)
     | [v0, v1] \<Rightarrow>
         if \<not> rv_IsValid v0 \<or> \<not> rv_CanInterface v0 then Err (Errorf ''first reruned value is invalid'')
         else if \<not> rv_IsValid v1 \<or> \<not> rv_CanInterface v1 then Err (Errorf ''second reruned value is invalid'')
         else if rv_Type v1 \<noteq> h_TypeError h then Err (Errorf ''second returned value must be an error'')
         else if rv_Interface v1 \<noteq> NilV then Err (h_asError h (rv_Interface v1))
         else Ok (rv_Interface v0)
     | _ \<Rightarrow> Err (Errorf ''function should return a value or a value and an error''))"

definition callFunc :: "host \<Rightarrow> val \<Rightarrow> val list \<Rightarrow> state \<Rightarrow> val res \<times> state" where
  "callFunc h fn args s =
    (case h_Call h fn args (heap s) of
       (Ok vs, m) \<Rightarrow> (callResult h vs, s\<lparr>heap := m\<rparr>)
     | (Err e, m) \<Rightarrow> (Err e, s\<lparr>heap := m\<rparr>)
     | (Panic p, m) \<Rightarrow> (Panic p, s\<lparr>heap := m\<rparr>))"

text \<open>
  \<^verbatim>\<open>Execute\<close> around \<^verbatim>\<open>executeExpr\<close>: the deferred \<^verbatim>\<open>recover\<close> turns a panic into an error,
  and an error is wrapped with the source text of the template.
\<close>

definition Execute_result :: "string \<Rightarrow> val res \<Rightarrow> error + val" where
  "Execute_result str r =
    (case r of
       Panic p \<Rightarrow> Inl (Errorf (''failed to execute: panic: '' @ p))
     | Err err \<Rightarrow>
         if CHR 0x0A \<in> set str
         then Inl (Wrapf (''failed to execute: '' @ [CHR 0x0A] @ str @ [CHR 0x0A]) err)
         else Inl (Wrapf (''failed to execute: '' @ str) err)
     | Ok v \<Rightarrow> Inr v)"

text \<open>\<^verbatim>\<open>executeLeftArrowExpr\<close> after the argument is evaluated by the child template.\<close>

definition leftArrowCall :: "host \<Rightarrow> val \<Rightarrow> error + val \<Rightarrow> state \<Rightarrow> val res \<times> state" where
  "leftArrowCall h f r s =
    (case r of
       Inl err \<Rightarrow> (Err err, s)
     | Inr v \<Rightarrow>
         (case v of
            StringV argStr \<Rightarrow>
              (case h_leftArrow h f argStr (argFuncs s) (heap s) of
                 (r', m) \<Rightarrow> (r', s\<lparr>heap := m\<rparr>))
          | _ \<Rightarrow> (Err (Errorf (''expect string but got '' @ h_fmtT h v)), s)))"

fun is_ParameterExpr :: "expr \<Rightarrow> bool" where
  "is_ParameterExpr (ParameterExpr X q) = True"
| "is_ParameterExpr e = False"

fun funcName :: "expr \<Rightarrow> string" where
  "funcName (Ident n) = n"
| "funcName e = ''function''"

text \<open>
  \<^verbatim>\<open>executeExpr\<close> with the functions it dispatches to, and the loop of \<^verbatim>\<open>executeArgs\<close>
  (\<open>vs\<close> the arguments so far, \<open>i\<close> the index). The flag is the field
  \<^verbatim>\<open>executingLeftArrowExprArg\<close> of the template; the child template of a left-arrow
  argument has it set, has an empty source text and shares the stash.
\<close>

fun executeExpr :: "host \<Rightarrow> bool \<Rightarrow> expr \<Rightarrow> val \<Rightarrow> state \<Rightarrow> val res \<times> state"
  and executeArgs ::
    "host \<Rightarrow> bool \<Rightarrow> string \<Rightarrow> val \<Rightarrow> val list \<Rightarrow> nat \<Rightarrow> expr list \<Rightarrow> val \<Rightarrow> state \<Rightarrow> val list res \<times> state"
where
  "executeExpr h fl (BasicLit k v) data s = (executeBasicLit (h_ParseFloat h) (h_tokenString h) k v, s)"
| "executeExpr h fl (ParameterExpr None q) data s = (Ok (StringV []), s)"
| "executeExpr h fl (ParameterExpr (Some X) q) data s =
    (case executeExpr h fl X data s of
       (Ok v, s1) \<Rightarrow> executeParameterExpr_value h fl q v s1
     | (Err err, s1) \<Rightarrow> (Err err, s1)
     | (Panic p, s1) \<Rightarrow> (Panic p, s1))"
| "executeExpr h fl (ParenExpr X) data s = executeExpr h fl X data s"
| "executeExpr h fl (UnaryExpr op X) data s =
    (case executeExpr h fl X data s of
       (Ok x, s1) \<Rightarrow> (executeUnaryExpr_value h op x, s1)
     | (Err err, s1) \<Rightarrow> (Err err, s1)
     | (Panic p, s1) \<Rightarrow> (Panic p, s1))"
| "executeExpr h fl (BinaryExpr X op Y) data s =
    (case executeExpr h fl X data s of
       (Ok x, s1) \<Rightarrow>
         (case executeExpr h fl Y data s1 of
            (Ok y, s2) \<Rightarrow>
              (case executeBinaryExpr_values h fl (is_ParameterExpr Y) op x y (heap s2) of
                 (Ok v, m) \<Rightarrow> (Ok v, s2\<lparr>heap := m\<rparr>)
               | (Err err, m) \<Rightarrow> (Err (Wrapf ''invalid operation'' err), s2\<lparr>heap := m\<rparr>)
               | (Panic p, m) \<Rightarrow> (Panic p, s2\<lparr>heap := m\<rparr>))
          | (Err err, s2) \<Rightarrow> (Err (Wrapf ''invalid operation'' err), s2)
          | (Panic p, s2) \<Rightarrow> (Panic p, s2))
     | (Err err, s1) \<Rightarrow> (Err (Wrapf ''invalid operation'' err), s1)
     | (Panic p, s1) \<Rightarrow> (Panic p, s1))"
| "executeExpr h fl (ConditionalExpr C X Y) data s =
    (case executeExpr h fl C data s of
       (Ok c, s1) \<Rightarrow>
         (case condition_of h c of
            Inl err \<Rightarrow> (Err err, s1)
          | Inr b \<Rightarrow> if b then executeExpr h fl X data s1 else executeExpr h fl Y data s1)
     | (Err err, s1) \<Rightarrow> (Err err, s1)
     | (Panic p, s1) \<Rightarrow> (Panic p, s1))"
| "executeExpr h fl (Ident n) data s = (h_lookup h (Ident n) data, s)"
| "executeExpr h fl (SelectorExpr X sel) data s = (h_lookup h (SelectorExpr X sel) data, s)"
| "executeExpr h fl (IndexExpr X i) data s = (h_lookup h (IndexExpr X i) data, s)"
| "executeExpr h fl (CallExpr Fun Args) data s =
    (case (case Fun of
             SelectorExpr X sel \<Rightarrow>
               (case executeExpr h fl X data s of
                  (Ok x, s1) \<Rightarrow>
                    (case resolveSelector h sel x of
                       Ok (fn, args) \<Rightarrow> (Ok (fn, args, sel), s1)
                     | Err err \<Rightarrow> (Err err, s1)
                     | Panic p \<Rightarrow> (Panic p, s1))
                | (Err err, s1) \<Rightarrow> (Err err, s1)
                | (Panic p, s1) \<Rightarrow> (Panic p, s1))
           | _ \<Rightarrow>
               (case executeExpr h fl Fun data s of
                  (Ok f, s1) \<Rightarrow> (Ok (f, [], funcName Fun), s1)
                | (Err err, s1) \<Rightarrow> (Err err, s1)
                | (Panic p, s1) \<Rightarrow> (Panic p, s1)))
     of
       (Ok (fn, args, fnName), s1) \<Rightarrow>
         if Kind fn \<noteq> KFunc then (Err (Errorf ''not function''), s1)
         else
           (case checkArity h fn (length args + length Args) of
              Some err \<Rightarrow> (Err err, s1)
            | None \<Rightarrow>
                (case executeArgs h fl fnName fn args 0 Args data s1 of
                   (Ok vs, s2) \<Rightarrow> callFunc h fn vs s2
                 | (Err err, s2) \<Rightarrow> (Err err, s2)
                 | (Panic p, s2) \<Rightarrow> (Panic p, s2)))
     | (Err err, s1) \<Rightarrow> (Err err, s1)
     | (Panic p, s1) \<Rightarrow> (Panic p, s1))"
| "executeExpr h fl (LeftArrowExpr Fun None) data s =
    (case executeExpr h fl Fun data s of
       (Ok v, s1) \<Rightarrow>
         if \<not> h_isFunc h v
         then (Err (Errorf ''expect template function but got *ast.LeftArrowExpr''), s1)
         else (Ok (LazyFuncV v), s1)
     | (Err err, s1) \<Rightarrow> (Err err, s1)
     | (Panic p, s1) \<Rightarrow> (Panic p, s1))"
| "executeExpr h fl (LeftArrowExpr Fun (Some Arg)) data s =
    (case executeExpr h fl Fun data s of
       (Ok v, s1) \<Rightarrow>
         if \<not> h_isFunc h v
         then (Err (Errorf ''expect template function but got *ast.LeftArrowExpr''), s1)
         else
           (case executeExpr h True Arg data s1 of
              (r, s2) \<Rightarrow> leftArrowCall h v (Execute_result [] r) s2)
     | (Err err, s1) \<Rightarrow> (Err err, s1)
     | (Panic p, s1) \<Rightarrow> (Panic p, s1))"
| "executeExpr h fl (DefinedExpr Arg) data s = (executeDefinedExpr h Arg data, s)"
| "executeArgs h fl fnName fn vs i [] data s = (Ok vs, s)"
| "executeArgs h fl fnName fn vs i (arg # args) data s =
    (case executeExpr h fl arg data s of
       (Ok a, s1) \<Rightarrow>
         (case convertArg h fnName fn (length vs) i a of
            Inl err \<Rightarrow> (Err err, s1)
          | Inr v \<Rightarrow> executeArgs h fl fnName fn (vs @ [v]) (i + 1) args data s1)
     | (Err err, s1) \<Rightarrow> (Err err, s1)
     | (Panic p, s1) \<Rightarrow> (Panic p, s1))"

text \<open>A template (its stash is in the state) and \<^verbatim>\<open>Template.Execute\<close>.\<close>

record Template =
  str :: string
  expr :: expr
  executingLeftArrowExprArg :: bool

definition Execute :: "host \<Rightarrow> Template \<Rightarrow> val \<Rightarrow> state \<Rightarrow> (error + val) \<times> state" where
  "Execute h t data s =
    (case executeExpr h (executingLeftArrowExprArg t) (expr t) data s of
       (r, s') \<Rightarrow> (Execute_result (str t) r, s'))"

section \<open>Concrete inputs\<close>








definition rs0 :: resultStrings where
  "rs0 = \<lparr>passedString = ''passed'', failedString = ''failed'', skippedString = ''skipped''\<rparr>"

text \<open>The summary after a sequence of calls of \<^verbatim>\<open>append\<close> on a new one.\<close>

definition appends :: "resultStrings \<Rightarrow> (string \<times> string) list \<Rightarrow> testSummary" where
  "appends rs calls = foldl (\<lambda>s (p, r). testSummary_append rs s p r) newTestSummary calls"

section \<open>Properties: the test summary and the expected status code\<close>

lemma failedFiles_loop_acc:
  "result \<noteq> [] \<Longrightarrow>
   failedFiles_loop result fs = result @ concat (map (\<lambda>f. [CHR 0x09] @ ''- '' @ f @ [CHR 0x0A]) fs)"
  by (induction fs arbitrary: result) (simp_all add: Let_def)

lemma failedFiles_eq:
  "failedFiles s =
     (if failed s = [] then []
      else ''Failed tests:'' @ [CHR 0x0A]
           @ concat (map (\<lambda>f. [CHR 0x09] @ ''- '' @ f @ [CHR 0x0A]) (failed s)) @ [CHR 0x0A])"
proof (cases "failed s")
  case Nil
  then show ?thesis by (simp add: failedFiles_def)
next
  case (Cons f fs)
  have "failedFiles_loop [] (f # fs) =
        failedFiles_loop (''Failed tests:'' @ [CHR 0x0A] @ [CHR 0x09] @ ''- '' @ f @ [CHR 0x0A]) fs"
    by (simp add: Let_def)
  also have "\<dots> = (''Failed tests:'' @ [CHR 0x0A] @ [CHR 0x09] @ ''- '' @ f @ [CHR 0x0A])
                   @ concat (map (\<lambda>f. [CHR 0x09] @ ''- '' @ f @ [CHR 0x0A]) fs)"
    by (rule failedFiles_loop_acc) simp
  finally show ?thesis using Cons by (simp add: failedFiles_def)
qed

lemma Sprintf_format_only_failedFiles:
  "failed s \<noteq> [] \<Longrightarrow>
   \<exists>rest. Sprintf_format_only verbs (failedFiles s) = ''Failed tests:'' @ [CHR 0x0A, CHR 0x09] @ ''- '' @ rest"
  by (cases "failed s") (simp_all add: failedFiles_eq Sprintf_format_only_def Let_def)

lemma foldl_append_lists:
  "foldl (\<lambda>s (p, r). testSummary_append rs s p r) s0 calls =
     \<lparr>passed = passed s0 @ map fst (filter (\<lambda>(p, r). r = passedString rs) calls),
      failed = failed s0 @ map fst (filter (\<lambda>(p, r). r \<noteq> passedString rs \<and> r = failedString rs) calls),
      skipped = skipped s0 @ map fst (filter (\<lambda>(p, r). r \<noteq> passedString rs \<and> r \<noteq> failedString rs
                                     \<and> r = skippedString rs) calls)\<rparr>"
proof (induction calls arbitrary: s0)
  case Nil
  show ?case by simp
next
  case (Cons c calls)
  obtain p r where c: "c = (p, r)" by (cases c)
  let ?f = "\<lambda>s (p, r). testSummary_append rs s p r"
  have step: "foldl ?f s0 (c # calls) = foldl ?f (testSummary_append rs s0 p r) calls"
    by (simp add: c)
  consider (P) "r = passedString rs"
    | (F) "r \<noteq> passedString rs" "r = failedString rs"
    | (S) "r \<noteq> passedString rs" "r \<noteq> failedString rs" "r = skippedString rs"
    | (N) "r \<noteq> passedString rs" "r \<noteq> failedString rs" "r \<noteq> skippedString rs"
    by blast
  then show ?case
  proof cases
    case P
    then have "testSummary_append rs s0 p r = s0\<lparr>passed := passed s0 @ [p]\<rparr>"
      by (simp add: testSummary_append_def)
    then show ?thesis unfolding step Cons.IH using P by (simp add: c)
  next
    case F
    then have "testSummary_append rs s0 p r = s0\<lparr>failed := failed s0 @ [p]\<rparr>"
      by (simp add: testSummary_append_def)
    then show ?thesis unfolding step Cons.IH using F by (simp add: c)
  next
    case S
    then have "testSummary_append rs s0 p r = s0\<lparr>skipped := skipped s0 @ [p]\<rparr>"
      by (simp add: testSummary_append_def)
    then show ?thesis unfolding step Cons.IH using S by (simp add: c)
  next
    case N
    then have "testSummary_append rs s0 p r = s0"
      by (simp add: testSummary_append_def)
    then show ?thesis unfolding step Cons.IH using N by (simp add: c)
  qed
qed

text \<open>
  C9. After any sequence of calls of \<^verbatim>\<open>append\<close> on a new summary: a call whose result
  string is none of the three result strings leaves the summary unchanged; the three
  lists together hold one entry for every call with one of the three result strings;
  the text of \<^verbatim>\<open>String\<close> starts with the sum of the three lengths and \<^verbatim>\<open>tests run\<close>; and
  the text that \<^verbatim>\<open>String\<close> appends for the failed files is empty when no test failed and
  starts with the \<^verbatim>\<open>Failed tests:\<close> heading otherwise.
\<close>

theorem testSummary_append_String:
  fixes rs :: resultStrings and calls :: "(string \<times> string) list"
  defines "s \<equiv> appends rs calls"
  shows "(r \<noteq> passedString rs \<and> r \<noteq> failedString rs \<and> r \<noteq> skippedString rs
            \<longrightarrow> testSummary_append rs s p r = s)
       \<and> length (passed s) + length (failed s) + length (skipped s)
           = length (filter (\<lambda>(p, r). r = passedString rs \<or> r = failedString rs \<or> r = skippedString rs) calls)
       \<and> testSummary_String wrap verbs s noColor
           = [CHR 0x0A] @ Itoa (int (length (passed s) + length (failed s) + length (skipped s)))
             @ '' tests run: ''
             @ wrap (passColor noColor) (Itoa (int (length (passed s))) @ '' passed'') @ '', ''
             @ wrap (failColor noColor) (Itoa (int (length (failed s))) @ '' failed'') @ '', ''
             @ wrap (skipColor noColor) (Itoa (int (length (skipped s))) @ '' skipped'')
             @ [CHR 0x0A, CHR 0x0A]
             @ wrap (failColor noColor) (Sprintf_format_only verbs (failedFiles s))
       \<and> (failed s = [] \<longrightarrow> Sprintf_format_only verbs (failedFiles s) = [])
       \<and> (failed s \<noteq> [] \<longrightarrow>
            (\<exists>rest. Sprintf_format_only verbs (failedFiles s)
                      = ''Failed tests:'' @ [CHR 0x0A, CHR 0x09] @ ''- '' @ rest))"
proof -
  have a: "r \<noteq> passedString rs \<and> r \<noteq> failedString rs \<and> r \<noteq> skippedString rs
            \<longrightarrow> testSummary_append rs s p r = s"
    by (simp add: testSummary_append_def)
  have lists: "s = \<lparr>passed = map fst (filter (\<lambda>(p, r). r = passedString rs) calls),
      failed = map fst (filter (\<lambda>(p, r). r \<noteq> passedString rs \<and> r = failedString rs) calls),
      skipped = map fst (filter (\<lambda>(p, r). r \<noteq> passedString rs \<and> r \<noteq> failedString rs
                                     \<and> r = skippedString rs) calls)\<rparr>"
    unfolding s_def appends_def foldl_append_lists by (simp add: newTestSummary_def)
  have b: "length (passed s) + length (failed s) + length (skipped s)
           = length (filter (\<lambda>(p, r). r = passedString rs \<or> r = failedString rs \<or> r = skippedString rs) calls)"
    unfolding lists by (induction calls) auto
  have c: "testSummary_String wrap verbs s noColor
           = [CHR 0x0A] @ Itoa (int (length (passed s) + length (failed s) + length (skipped s)))
             @ '' tests run: ''
             @ wrap (passColor noColor) (Itoa (int (length (passed s))) @ '' passed'') @ '', ''
             @ wrap (failColor noColor) (Itoa (int (length (failed s))) @ '' failed'') @ '', ''
             @ wrap (skipColor noColor) (Itoa (int (length (skipped s))) @ '' skipped'')
             @ [CHR 0x0A, CHR 0x0A]
             @ wrap (failColor noColor) (Sprintf_format_only verbs (failedFiles s))"
    by (simp add: testSummary_String_def Let_def)
  have d: "failed s = [] \<longrightarrow> Sprintf_format_only verbs (failedFiles s) = []"
    by (simp add: failedFiles_def Sprintf_format_only_def)
  have e: "failed s \<noteq> [] \<longrightarrow>
            (\<exists>rest. Sprintf_format_only verbs (failedFiles s)
                      = ''Failed tests:'' @ [CHR 0x0A, CHR 0x09] @ ''- '' @ rest)"
    using Sprintf_format_only_failedFiles by blast
  from a b c d e show ?thesis by blast
qed

theorem testSummary_append_String_witness:
  "testSummary_append rs0 (appends rs0 [(''a.yaml'', ''passed''), (''b.yaml'', ''failed''), (''c.yaml'', ''bogus'')])
       ''d.yaml'' ''unknown''
     = appends rs0 [(''a.yaml'', ''passed''), (''b.yaml'', ''failed''), (''c.yaml'', ''bogus'')]
   \<and> testSummary_String (\<lambda>a t. t) (\<lambda>t. t)
        (appends rs0 [(''a.yaml'', ''passed''), (''b.yaml'', ''failed''), (''c.yaml'', ''bogus'')]) True
     = [CHR 0x0A] @ ''2 tests run: 1 passed, 1 failed, 0 skipped'' @ [CHR 0x0A, CHR 0x0A]
       @ ''Failed tests:'' @ [CHR 0x0A, CHR 0x09] @ ''- b.yaml'' @ [CHR 0x0A, CHR 0x0A]
   \<and> failed (appends rs0 [(''a.yaml'', ''passed''), (''b.yaml'', ''failed''), (''c.yaml'', ''bogus'')]) \<noteq> []
   \<and> failed (appends rs0 [(''a.yaml'', ''passed'')]) = []
   \<and> Sprintf_format_only (\<lambda>t. t) (failedFiles (appends rs0 [(''a.yaml'', ''passed'')])) = []"
proof -
  let ?calls = "[(''a.yaml'', ''passed''), (''b.yaml'', ''failed''), (''c.yaml'', ''bogus'')]"
  have s: "appends rs0 ?calls = \<lparr>passed = [''a.yaml''], failed = [''b.yaml''], skipped = []\<rparr>"
    by (simp add: appends_def rs0_def testSummary_append_def newTestSummary_def)
  have s1: "appends rs0 [(''a.yaml'', ''passed'')] = \<lparr>passed = [''a.yaml''], failed = [], skipped = []\<rparr>"
    by (simp add: appends_def rs0_def testSummary_append_def newTestSummary_def)
  have i2: "Itoa 2 = ''2''" and i1: "Itoa 1 = ''1''" and i0: "Itoa 0 = ''0''"
    by code_simp+
  have r: "''unknown'' \<noteq> passedString rs0 \<and> ''unknown'' \<noteq> failedString rs0 \<and> ''unknown'' \<noteq> skippedString rs0"
    by (simp add: rs0_def)
  have ff: "Sprintf_format_only (\<lambda>t. t) (failedFiles (appends rs0 ?calls))
      = ''Failed tests:'' @ [CHR 0x0A, CHR 0x09] @ ''- b.yaml'' @ [CHR 0x0A, CHR 0x0A]"
    unfolding s by (simp add: failedFiles_def Sprintf_format_only_def Let_def)
  note t = testSummary_append_String [of "''unknown''" rs0 ?calls "''d.yaml''" "\<lambda>a t. t" "\<lambda>t. t" True]
  note t1 = testSummary_append_String [of "''unknown''" rs0 "[(''a.yaml'', ''passed'')]" "''d.yaml''" "\<lambda>a t. t" "\<lambda>t. t" True]
  from t r have "testSummary_append rs0 (appends rs0 ?calls) ''d.yaml'' ''unknown'' = appends rs0 ?calls"
    by blast
  moreover from t have "testSummary_String (\<lambda>a t. t) (\<lambda>t. t) (appends rs0 ?calls) True
     = [CHR 0x0A] @ ''2 tests run: 1 passed, 1 failed, 0 skipped'' @ [CHR 0x0A, CHR 0x0A]
       @ ''Failed tests:'' @ [CHR 0x0A, CHR 0x09] @ ''- b.yaml'' @ [CHR 0x0A, CHR 0x0A]"
    unfolding ff unfolding s by (simp add: i0 i1 i2)
  moreover have "failed (appends rs0 ?calls) \<noteq> []" unfolding s by simp
  moreover have f1: "failed (appends rs0 [(''a.yaml'', ''passed'')]) = []" unfolding s1 by simp
  moreover from t1 f1 have "Sprintf_format_only (\<lambda>t. t) (failedFiles (appends rs0 [(''a.yaml'', ''passed'')])) = []"
    by blast
  ultimately show ?thesis by blast
qed

text \<open>
  C10. \<^verbatim>\<open>assertStatusCode\<close> returns no error exactly when the name of the actual status
  code, or the decimal text of the code read as an \<^verbatim>\<open>int32\<close>, is the expected code: the
  \<^verbatim>\<open>Status.Code\<close> of the expectation when that is not empty, else its \<^verbatim>\<open>Code\<close> when that is
  not empty, else \<^verbatim>\<open>OK\<close>.
\<close>

theorem assertStatusCode_iff:
  "(assertStatusCode codeString detailsString e sts = None) =
   (let expected = (if ExpectStatus.Code (Status e) \<noteq> [] then ExpectStatus.Code (Status e)
                    else if Expect.Code e \<noteq> [] then Expect.Code e else ''OK'')
    in codeString (Status_Code sts) = expected \<or> Itoa (sint (Status_Code sts)) = expected)"
  by (simp add: assertStatusCode_def Let_def)

section \<open>Properties: signed arithmetic\<close>








lemma sdiv_neg_pos: "k \<le> 0 \<Longrightarrow> 0 < q \<Longrightarrow> k sdiv q = - ((- k) div q)" for k q :: int
  by (simp add: signed_divide_int_def sgn_if)







lemma sint64_times:
  "- (2 ^ 63) \<le> sint a * sint b \<Longrightarrow> sint a * sint b < 2 ^ 63 \<Longrightarrow> sint (a * b) = sint a * sint b"
  for a b :: "64 word"
  by (simp add: sint_word_ariths signed_take_bit_int_eq_self)





















end
